theory Spec2Isabelle
  imports Complex_Main
begin

section \<open>Exceptions and Python strings\<close>

text \<open>
  The ingestion pipeline of the upload backend lives in two modules,
  \<^verbatim>\<open>app/utils/vector_search.py\<close> (the embedding provider) and
  \<^verbatim>\<open>app/utils/file_processing.py\<close> (text extraction, chunking and the pipeline
  itself). Every function that can raise returns a sum, \<open>Inl\<close> carrying the exception.
  The exception classes that the code tells apart are constructors of their own; each
  carries its message, which \<^verbatim>\<open>str(e)\<close> reads.
\<close>

datatype exn =
    ImportError string
  | ZeroDivisionError string
  | SQLAlchemyError string
  | Exception string

fun str :: "exn \<Rightarrow> string" where
  "str (ImportError m) = m"
| "str (ZeroDivisionError m) = m"
| "str (SQLAlchemyError m) = m"
| "str (Exception m) = m"

text \<open>
  A Python \<^verbatim>\<open>str\<close> is a \<open>string\<close>; a character is a code point below 256.
  \<^verbatim>\<open>str.isspace\<close> holds in that range for the code points 9 to 13, 28 to 32, 133
  and 160, and \<^verbatim>\<open>str.strip()\<close> removes such characters at both ends.
\<close>

definition isspace :: "char \<Rightarrow> bool" where
  "isspace c =
     (let n = (of_char c :: nat)
      in (9 \<le> n \<and> n \<le> 13) \<or> (28 \<le> n \<and> n \<le> 32) \<or> n = 133 \<or> n = 160)"

definition strip :: "string \<Rightarrow> string" where
  "strip s = rev (dropWhile isspace (rev (dropWhile isspace s)))"

definition startswith :: "string \<Rightarrow> string \<Rightarrow> bool" where
  "startswith s p = (take (length p) s = p)"

text \<open>
  \<^verbatim>\<open>str.lower()\<close> on the letters A to Z. The result is only ever compared with
  ASCII literals, and no other code point below 256 is lowered to an ASCII one.
\<close>

definition lower_char :: "char \<Rightarrow> char" where
  "lower_char c =
     (let n = (of_char c :: nat) in if 65 \<le> n \<and> n \<le> 90 then char_of (n + 32) else c)"

definition lower :: "string \<Rightarrow> string" where
  "lower s = map lower_char s"

text \<open>\<^verbatim>\<open>sep.join(parts)\<close>.\<close>

fun join :: "string \<Rightarrow> string list \<Rightarrow> string" where
  "join sep [] = []"
| "join sep [p] = p"
| "join sep (p # q # ps) = p @ sep @ join sep (q # ps)"

text \<open>
  \<^verbatim>\<open>str.rfind(c)\<close>: the index of the last occurrence of \<open>c\<close>, or \<open>-1\<close>.
\<close>

primrec find_last :: "char \<Rightarrow> string \<Rightarrow> nat \<Rightarrow> int \<Rightarrow> int" where
  "find_last c [] i acc = acc"
| "find_last c (x # xs) i acc = find_last c xs (Suc i) (if x = c then int i else acc)"

definition rfind :: "char \<Rightarrow> string \<Rightarrow> int" where
  "rfind c s = find_last c s 0 (- 1)"

text \<open>
  \<^verbatim>\<open>os.path.splitext\<close> on a POSIX path: the extension starts at the last dot of the
  last path component, unless only dots precede it in that component.
\<close>

definition splitext :: "string \<Rightarrow> string \<times> string" where
  "splitext p =
     (let sepIndex = rfind (CHR ''/'') p;
          dotIndex = rfind (CHR ''.'') p
      in if dotIndex > sepIndex \<and>
            list_ex (\<lambda>c. c \<noteq> CHR ''.'')
              (take (nat (dotIndex - sepIndex - 1)) (drop (nat (sepIndex + 1)) p))
         then (take (nat dotIndex) p, drop (nat dotIndex) p)
         else (p, []))"

section \<open>The environment of the pipeline\<close>

text \<open>
  What the code calls outside the repository is a field of the environment: the file
  system and the two document parsers, the \<^verbatim>\<open>cl100k_base\<close> tokenizer of tiktoken,
  langchain's \<^verbatim>\<open>RecursiveCharacterTextSplitter\<close>, the OpenAI client, and the
  generator behind Python's \<^verbatim>\<open>random\<close> module, whose state has type \<open>'s\<close>:
  \<open>rng_seed\<close> is the state that \<^verbatim>\<open>random.seed(text)\<close> installs and \<open>rng_random\<close> is
  one call of \<^verbatim>\<open>random.random()\<close>. \<open>use_mock_embeddings\<close> is the module-level flag
  \<^verbatim>\<open>USE_MOCK_EMBEDDINGS\<close>. Numbers of type \<^verbatim>\<open>float\<close> are real numbers here.
\<close>

record 's env =
  read_text :: "string \<Rightarrow> exn + string"
  pdf_pages :: "string \<Rightarrow> exn + string list"
  docx_paragraphs :: "string \<Rightarrow> exn + string list"
  cl100k_encode :: "string \<Rightarrow> exn + nat list"
  split_text :: "nat \<Rightarrow> nat \<Rightarrow> string \<Rightarrow> exn + string list"
  use_mock_embeddings :: bool
  openai_embedding :: "string \<Rightarrow> exn + real list"
  rng_seed :: "string \<Rightarrow> 's"
  rng_random :: "'s \<Rightarrow> real \<times> 's"

section \<open>The embedding provider\<close>

text \<open>\<^verbatim>\<open>random.uniform(a, b)\<close> is \<^verbatim>\<open>a + (b - a) * random()\<close>.\<close>

definition uniform :: "'s env \<Rightarrow> real \<Rightarrow> real \<Rightarrow> 's \<Rightarrow> real \<times> 's" where
  "uniform env a b s = (case rng_random env s of (r, s') \<Rightarrow> (a + (b - a) * r, s'))"

text \<open>\<^verbatim>\<open>[random.uniform(-1, 1) for _ in range(n)]\<close>, threading the generator's state.\<close>

fun draws :: "'s env \<Rightarrow> nat \<Rightarrow> 's \<Rightarrow> real list \<times> 's" where
  "draws env 0 s = ([], s)"
| "draws env (Suc n) s =
     (case uniform env (- 1) 1 s of
        (x, s1) \<Rightarrow> (case draws env n s1 of (xs, s2) \<Rightarrow> (x # xs, s2)))"

text \<open>
  \<^verbatim>\<open>get_mock_embedding(text, vector_size)\<close>: the generator's state \<open>s0\<close> at the call
  is replaced by the seed; dividing by a magnitude of zero raises.
\<close>

definition get_mock_embedding ::
  "'s env \<Rightarrow> string \<Rightarrow> nat \<Rightarrow> 's \<Rightarrow> (exn + real list) \<times> 's" where
  "get_mock_embedding env text vector_size s0 =
     (case draws env vector_size (rng_seed env text) of
        (mock_embedding, s2) \<Rightarrow>
          (let magnitude = sqrt (sum_list (map (\<lambda>x. x\<^sup>2) mock_embedding))
           in if magnitude = 0 \<and> mock_embedding \<noteq> []
              then (Inl (ZeroDivisionError ''float division by zero''), s2)
              else (Inr (map (\<lambda>x. x / magnitude) mock_embedding), s2)))"

text \<open>
  \<^verbatim>\<open>get_embedding(text)\<close>. The result is \<open>Inr None\<close> for \<^verbatim>\<open>return None\<close>. The outer
  \<^verbatim>\<open>except Exception\<close> runs \<open>fallback\<close>, on the text as truncated by then.
\<close>

definition get_embedding ::
  "'s env \<Rightarrow> string \<Rightarrow> 's \<Rightarrow> (exn + real list option) \<times> 's" where
  "get_embedding env text s0 =
     (if text = [] \<or> strip text = [] then (Inr None, s0)
      else
        (let text' = (if length text > 8000 then take 8000 text else text);
             fallback = (\<lambda>s. case get_mock_embedding env text' 1536 s of
                                (Inl e, s') \<Rightarrow> (Inl e, s')
                              | (Inr v, s') \<Rightarrow> (Inr (Some v), s'))
         in if use_mock_embeddings env then
              (case get_mock_embedding env text' 1536 s0 of
                 (Inl e, s1) \<Rightarrow> fallback s1
               | (Inr mock_result, s1) \<Rightarrow> (Inr (Some mock_result), s1))
            else
              (case openai_embedding env text' of
                 Inl e \<Rightarrow> fallback s0
               | Inr embedding \<Rightarrow> (Inr (Some embedding), s0))))"

section \<open>The store\<close>

text \<open>
  The tables \<^verbatim>\<open>files\<close>, \<^verbatim>\<open>chunks\<close> and \<^verbatim>\<open>embeddings\<close> of
  \<^verbatim>\<open>app/models/models.py\<close>, with the columns the pipeline reads or writes.
  \<open>chunk_id\<close> and \<open>chunk_txt\<close> are \<^verbatim>\<open>Chunk.id\<close> and \<^verbatim>\<open>Chunk.text\<close>;
  \<open>embedding_id\<close> and \<open>embedding_chunk_id\<close> are \<^verbatim>\<open>Embedding.id\<close> and
  \<^verbatim>\<open>Embedding.chunk_id\<close>. The files are keyed by their primary key.
\<close>

type_synonym uuid = nat

record file_row =
  filename :: string
  status :: string

record chunk_row =
  chunk_id :: uuid
  chunk_number :: nat
  chunk_txt :: string
  token_count :: nat
  file_id :: uuid

record embedding_row =
  embedding_id :: uuid
  embedding_chunk_id :: uuid
  embedding_vector :: "real list"
  embedding_model :: string

text \<open>
  The world of one run: the tables as the session sees them; the failures of the store
  still to come, each given by the number of store calls that succeed before it (the
  empty list: no store call fails); the supply behind \<^verbatim>\<open>uuid.uuid4()\<close>; and the
  state of the \<^verbatim>\<open>random\<close> module.
\<close>

record 's world =
  files :: "uuid \<rightharpoonup> file_row"
  chunks :: "chunk_row list"
  embeddings :: "embedding_row list"
  store_faults :: "nat list"
  next_uuid :: nat
  rng :: 's

type_synonym ('a, 's) action = "'s world \<Rightarrow> (exn + 'a) \<times> 's world"

text \<open>Sequencing: an exception ends the block, the world as it is then goes with it.\<close>

definition and_then :: "('a, 's) action \<Rightarrow> ('a \<Rightarrow> ('b, 's) action) \<Rightarrow> ('b, 's) action" where
  "and_then m f w = (case m w of (Inl e, w') \<Rightarrow> (Inl e, w') | (Inr a, w') \<Rightarrow> f a w')"

definition result :: "'a \<Rightarrow> ('a, 's) action" where
  "result a w = (Inr a, w)"

text \<open>A call of an environment function, which leaves the world alone.\<close>

definition call :: "exn + 'a \<Rightarrow> ('a, 's) action" where
  "call r w = (r, w)"

text \<open>One round trip to the database: it raises when the next failure is due.\<close>

definition store_call :: "(unit, 's) action" where
  "store_call w =
     (case store_faults w of
        [] \<Rightarrow> (Inr (), w)
      | 0 # later \<Rightarrow> (Inl (SQLAlchemyError ''database error''), w\<lparr>store_faults := later\<rparr>)
      | Suc n # later \<Rightarrow> (Inr (), w\<lparr>store_faults := n # later\<rparr>))"

text \<open>\<^verbatim>\<open>db.query(File).filter(File.id == file_id).first()\<close>\<close>

definition query_file :: "uuid \<Rightarrow> (file_row option, 's) action" where
  "query_file fid = and_then store_call (\<lambda>_ w. (Inr (files w fid), w))"

text \<open>\<^verbatim>\<open>db_file.status = s\<close>, on the row that the query returned.\<close>

definition set_status :: "uuid \<Rightarrow> string \<Rightarrow> (unit, 's) action" where
  "set_status fid s w =
     (Inr (),
      case files w fid of
        None \<Rightarrow> w
      | Some f \<Rightarrow> w\<lparr>files := (files w)(fid \<mapsto> f\<lparr>status := s\<rparr>)\<rparr>)"

definition commit :: "(unit, 's) action" where
  "commit = store_call"

definition flush :: "(unit, 's) action" where
  "flush = store_call"

text \<open>\<^verbatim>\<open>[chunk_id for (chunk_id,) in db.query(Chunk.id).filter(Chunk.file_id == file_id).all()]\<close>\<close>

definition query_chunk_ids :: "uuid \<Rightarrow> (uuid list, 's) action" where
  "query_chunk_ids fid =
     and_then store_call
       (\<lambda>_ w. (Inr (map chunk_id (filter (\<lambda>c. file_id c = fid) (chunks w))), w))"

text \<open>\<^verbatim>\<open>db.query(Embedding).filter(Embedding.chunk_id.in_(chunk_ids)).delete(...)\<close>\<close>

definition delete_embeddings :: "uuid list \<Rightarrow> (unit, 's) action" where
  "delete_embeddings chunk_ids =
     and_then store_call
       (\<lambda>_ w. (Inr (),
          w\<lparr>embeddings := filter (\<lambda>e. embedding_chunk_id e \<notin> set chunk_ids) (embeddings w)\<rparr>))"

text \<open>\<^verbatim>\<open>db.query(Chunk).filter(Chunk.file_id == file_id).delete()\<close>\<close>

definition delete_chunks :: "uuid \<Rightarrow> (unit, 's) action" where
  "delete_chunks fid =
     and_then store_call
       (\<lambda>_ w. (Inr (), w\<lparr>chunks := filter (\<lambda>c. file_id c \<noteq> fid) (chunks w)\<rparr>))"

text \<open>\<^verbatim>\<open>db.query(Chunk).filter(Chunk.file_id == file_id).count()\<close>\<close>

definition count_chunks :: "uuid \<Rightarrow> (nat, 's) action" where
  "count_chunks fid =
     and_then store_call
       (\<lambda>_ w. (Inr (length (filter (\<lambda>c. file_id c = fid) (chunks w))), w))"

text \<open>\<^verbatim>\<open>db.add(row)\<close> puts the row into the session; no round trip.\<close>

definition add_chunk :: "chunk_row \<Rightarrow> (unit, 's) action" where
  "add_chunk row w = (Inr (), w\<lparr>chunks := chunks w @ [row]\<rparr>)"

definition add_embedding :: "embedding_row \<Rightarrow> (unit, 's) action" where
  "add_embedding row w = (Inr (), w\<lparr>embeddings := embeddings w @ [row]\<rparr>)"

definition uuid4 :: "(uuid, 's) action" where
  "uuid4 w = (Inr (next_uuid w), w\<lparr>next_uuid := Suc (next_uuid w)\<rparr>)"

section \<open>Text extraction, token counting, chunking\<close>

text \<open>
  \<^verbatim>\<open>extract_text_from_file(file_path)\<close>. The two parser branches catch every
  exception of their \<^verbatim>\<open>try\<close> block and return a message instead; reading a
  \<^verbatim>\<open>.txt\<close> file is not guarded.
\<close>

definition extract_text_from_file :: "'s env \<Rightarrow> string \<Rightarrow> exn + string" where
  "extract_text_from_file env file_path =
     (let file_extension = lower (snd (splitext file_path))
      in if file_extension = ''.txt'' then read_text env file_path
         else if file_extension = ''.pdf'' then
           (case pdf_pages env file_path of
              Inr pages \<Rightarrow> Inr (concat pages)
            | Inl (ImportError m) \<Rightarrow>
                Inr (''Error: PDF processing requires PyPDF2. Please install it with ''
                     @ [CHR 0x27] @ ''pip install PyPDF2'' @ [CHR 0x27] @ ''.'')
            | Inl e \<Rightarrow> Inr (''Error extracting text from PDF: '' @ str e))
         else if file_extension \<in> set [''.docx'', ''.doc''] then
           (case docx_paragraphs env file_path of
              Inr paragraphs \<Rightarrow> Inr (join [CHR 0x0A] paragraphs)
            | Inl (ImportError m) \<Rightarrow>
                Inr (''Error: DOCX processing requires python-docx. Please install it with ''
                     @ [CHR 0x27] @ ''pip install python-docx'' @ [CHR 0x27] @ ''.'')
            | Inl e \<Rightarrow> Inr (''Error extracting text from DOCX: '' @ str e))
         else Inr (''Error: Unsupported file type '' @ file_extension))"

definition count_tokens :: "'s env \<Rightarrow> string \<Rightarrow> exn + nat" where
  "count_tokens env text = map_sum id length (cl100k_encode env text)"

definition chunk_text :: "'s env \<Rightarrow> string \<Rightarrow> nat \<Rightarrow> nat \<Rightarrow> exn + string list" where
  "chunk_text env text chunk_size chunk_overlap = split_text env chunk_size chunk_overlap text"

section \<open>The ingestion pipeline\<close>

text \<open>
  The inner \<^verbatim>\<open>try\<close> of the loop of \<^verbatim>\<open>process_file\<close>: an embedding row is added
  when \<^verbatim>\<open>get_embedding\<close> returns a non-empty vector; \<^verbatim>\<open>None\<close>, an empty vector
  and an exception leave the chunk without one.
\<close>

definition embed_chunk :: "'s env \<Rightarrow> uuid \<Rightarrow> string \<Rightarrow> (unit, 's) action" where
  "embed_chunk env cid chunk_content w =
     (case get_embedding env chunk_content (rng w) of
        (Inr (Some vec), s') \<Rightarrow>
          (if vec \<noteq> [] then
             and_then uuid4
               (\<lambda>eid. add_embedding
                  \<lparr>embedding_id = eid, embedding_chunk_id = cid,
                   embedding_vector = vec,
                   embedding_model = ''text-embedding-ada-002''\<rparr>)
               (w\<lparr>rng := s'\<rparr>)
           else (Inr (), w\<lparr>rng := s'\<rparr>))
      | (Inr None, s') \<Rightarrow> (Inr (), w\<lparr>rng := s'\<rparr>)
      | (Inl e, s') \<Rightarrow> (Inr (), w\<lparr>rng := s'\<rparr>))"

text \<open>One iteration of the loop, for the chunk at index \<open>i\<close> of \<^verbatim>\<open>enumerate(chunks)\<close>.\<close>

definition process_chunk :: "'s env \<Rightarrow> uuid \<Rightarrow> nat \<Rightarrow> string \<Rightarrow> (unit, 's) action" where
  "process_chunk env fid i chunk_content =
     and_then (call (count_tokens env chunk_content)) (\<lambda>tokens.
     and_then uuid4 (\<lambda>cid.
     and_then (add_chunk \<lparr>chunk_id = cid, chunk_number = i + 1, chunk_txt = chunk_content,
                          token_count = tokens, file_id = fid\<rparr>) (\<lambda>_.
     and_then flush (\<lambda>_.
     embed_chunk env cid chunk_content))))"

fun process_chunks :: "'s env \<Rightarrow> uuid \<Rightarrow> nat \<Rightarrow> string list \<Rightarrow> (unit, 's) action" where
  "process_chunks env fid i [] = result ()"
| "process_chunks env fid i (chunk_content # rest) =
     and_then (process_chunk env fid i chunk_content)
       (\<lambda>_. process_chunks env fid (Suc i) rest)"

text \<open>
  The deletion of a document's embeddings and chunks, as \<^verbatim>\<open>process_file\<close> (lines 97
  to 109) and \<^verbatim>\<open>re_process_file\<close> (lines 208 to 219) both write it.
\<close>

definition delete_existing :: "uuid \<Rightarrow> (unit, 's) action" where
  "delete_existing fid =
     and_then (query_chunk_ids fid) (\<lambda>chunk_ids.
     and_then (if chunk_ids \<noteq> [] then delete_embeddings chunk_ids else result ()) (\<lambda>_.
     delete_chunks fid))"

text \<open>The \<^verbatim>\<open>try\<close> block of \<^verbatim>\<open>process_file(file_id, file_path, db)\<close>.\<close>

definition process_file_body :: "'s env \<Rightarrow> uuid \<Rightarrow> string \<Rightarrow> (unit, 's) action" where
  "process_file_body env fid file_path =
     and_then (query_file fid) (\<lambda>db_file.
       case db_file of
         None \<Rightarrow> result ()
       | Some _ \<Rightarrow>
           and_then (set_status fid ''Processing'') (\<lambda>_.
           and_then commit (\<lambda>_.
           and_then (delete_existing fid) (\<lambda>_.
           and_then (call (extract_text_from_file env file_path)) (\<lambda>text.
             if startswith text ''Error:'' then
               and_then (set_status fid ''Error'') (\<lambda>_. commit)
             else
               and_then (call (chunk_text env text 512 50)) (\<lambda>chunk_list.
               and_then (count_chunks fid) (\<lambda>chunk_count.
               and_then (if chunk_count > 0
                         then and_then (delete_chunks fid) (\<lambda>_. commit)
                         else result ()) (\<lambda>_.
               and_then (process_chunks env fid 0 chunk_list) (\<lambda>_.
               and_then commit (\<lambda>_.
               and_then (set_status fid ''Embedded'') (\<lambda>_.
               commit)))))))))))"

text \<open>The \<^verbatim>\<open>except Exception\<close> block, which \<^verbatim>\<open>re_process_file\<close> repeats.\<close>

definition on_exception :: "uuid \<Rightarrow> (unit, 's) action" where
  "on_exception fid =
     and_then (query_file fid) (\<lambda>db_file.
       case db_file of
         None \<Rightarrow> result ()
       | Some _ \<Rightarrow> and_then (set_status fid ''Error'') (\<lambda>_. commit))"

definition process_file :: "'s env \<Rightarrow> uuid \<Rightarrow> string \<Rightarrow> (unit, 's) action" where
  "process_file env fid file_path w =
     (case process_file_body env fid file_path w of
        (Inl e, w') \<Rightarrow> on_exception fid w'
      | (Inr u, w') \<Rightarrow> (Inr u, w'))"

definition re_process_file_body :: "'s env \<Rightarrow> uuid \<Rightarrow> string \<Rightarrow> (unit, 's) action" where
  "re_process_file_body env fid file_path =
     and_then (query_file fid) (\<lambda>db_file.
       case db_file of
         None \<Rightarrow> result ()
       | Some _ \<Rightarrow>
           and_then (delete_existing fid) (\<lambda>_.
           and_then commit (\<lambda>_.
           process_file env fid file_path)))"

definition re_process_file :: "'s env \<Rightarrow> uuid \<Rightarrow> string \<Rightarrow> (unit, 's) action" where
  "re_process_file env fid file_path w =
     (case re_process_file_body env fid file_path w of
        (Inl e, w') \<Rightarrow> on_exception fid w'
      | (Inr u, w') \<Rightarrow> (Inr u, w'))"

section \<open>Properties of states, and a sample run\<close>

text \<open>The chunk rows of a document, and the embedding rows that reference a chunk.\<close>

definition chunks_of :: "uuid \<Rightarrow> 's world \<Rightarrow> chunk_row list" where
  "chunks_of fid w = filter (\<lambda>c. file_id c = fid) (chunks w)"

definition embeddings_of :: "uuid \<Rightarrow> 's world \<Rightarrow> embedding_row list" where
  "embeddings_of cid w = filter (\<lambda>e. embedding_chunk_id e = cid) (embeddings w)"


text \<open>The identifiers in use are older than the ones \<^verbatim>\<open>uuid4\<close> will hand out.\<close>

definition uuids_fresh :: "'s world \<Rightarrow> bool" where
  "uuids_fresh w =
     (list_all (\<lambda>c. chunk_id c < next_uuid w) (chunks w) \<and>
      list_all (\<lambda>e. embedding_chunk_id e < next_uuid w) (embeddings w))"

text \<open>
  The outcomes of \<^verbatim>\<open>get_embedding\<close> after which the loop adds no embedding row.
\<close>

definition embedding_failed :: "exn + real list option \<Rightarrow> bool" where
  "embedding_failed r = (case r of Inr (Some v) \<Rightarrow> v = [] | Inr None \<Rightarrow> True | Inl e \<Rightarrow> True)"

text \<open>
  Relations between the world before and after an action. \<open>keeps R m\<close>: whichever way
  \<open>m\<close> ends, the world it leaves is related by \<open>R\<close> to the one it started in.
  \<open>only_ada\<close>: every embedding row was there before or carries the model name
  \<open>text-embedding-ada-002\<close>. \<open>store_frame\<close>: a store that was not going to fail
  is still not going to, and the same file rows exist. \<open>handler_calls_succeed\<close>: the next two store calls, the
  ones an \<^verbatim>\<open>except\<close> block makes, do not raise.
\<close>

definition keeps :: "('s world \<Rightarrow> 's world \<Rightarrow> bool) \<Rightarrow> ('a, 's) action \<Rightarrow> bool" where
  "keeps R m = (\<forall>w. R w (snd (m w)))"

definition only_ada :: "'s world \<Rightarrow> 's world \<Rightarrow> bool" where
  "only_ada w w' =
     list_all (\<lambda>e. e \<in> set (embeddings w) \<or> embedding_model e = ''text-embedding-ada-002'')
       (embeddings w')"



text \<open>
  A sample environment: one text file that splits into three chunks, the second of
  them blank; a PDF parser that rejects its file; no OpenAI key; a small generator.
\<close>

definition demo_env :: "nat env" where
  "demo_env =
     \<lparr>read_text = (\<lambda>p. if p = ''notes.txt'' then Inr ''alpha beta gamma''
                        else Inl (Exception ''No such file or directory'')),
      pdf_pages = (\<lambda>p. Inl (Exception ''EOF marker not found'')),
      docx_paragraphs = (\<lambda>p. Inl (ImportError ''No module named docx'')),
      cl100k_encode = (\<lambda>t. Inr (map of_char t)),
      split_text = (\<lambda>chunk_size chunk_overlap t.
                      Inr (if t = ''alpha beta gamma'' then [''alpha'', '' '', ''gamma'']
                           else if t = [] then [] else [t])),
      use_mock_embeddings = True,
      openai_embedding = (\<lambda>t. Inl (Exception ''no client'')),
      rng_seed = (\<lambda>t. length t),
      rng_random = (\<lambda>s. (1 / (real s + 3), Suc s))\<rparr>"

text \<open>A sample world: document 1 with one chunk and its embedding from an earlier run.\<close>

definition demo_world :: "nat world" where
  "demo_world =
     \<lparr>files = [1 \<mapsto> \<lparr>filename = ''notes.txt'', status = ''Embedded''\<rparr>],
      chunks = [\<lparr>chunk_id = 10, chunk_number = 1, chunk_txt = ''old'', token_count = 3,
                 file_id = 1\<rparr>],
      embeddings = [\<lparr>embedding_id = 11, embedding_chunk_id = 10, embedding_vector = [1],
                     embedding_model = ''text-embedding-ada-002''\<rparr>],
      store_faults = [],
      next_uuid = 100,
      rng = 0\<rparr>"

section \<open>The embedding provider: lemmas\<close>

lemma dropWhile_all_iff: "(\<forall>x\<in>set (dropWhile P xs). P x) \<longleftrightarrow> (\<forall>x\<in>set xs. P x)"
  by (induction xs) auto

lemma strip_empty_iff: "strip s = [] \<longleftrightarrow> (\<forall>c\<in>set s. isspace c)"
  by (simp add: strip_def dropWhile_eq_Nil_conv dropWhile_all_iff)

lemma length_draws: "draws env n s = (xs, s') \<Longrightarrow> length xs = n"
  by (induction n arbitrary: s xs s') (auto split: prod.splits)

lemma get_mock_embedding_reseeds:
  "get_mock_embedding env t n s = get_mock_embedding env t n s'"
  by (simp add: get_mock_embedding_def)

lemma sum_list_divide_const:
  "sum_list (map (\<lambda>x. f x / (c::real)) xs) = sum_list (map f xs) / c"
  by (induction xs) (simp_all add: add_divide_distrib)

lemma sum_list_squares_nonneg: "0 \<le> sum_list (map (\<lambda>x::real. x\<^sup>2) xs)"
  by (induction xs) simp_all

lemma normalized_squares:
  assumes "sqrt (sum_list (map (\<lambda>x::real. x\<^sup>2) xs)) \<noteq> 0"
  shows "sum_list (map (\<lambda>x. x\<^sup>2) (map (\<lambda>x. x / sqrt (sum_list (map (\<lambda>x. x\<^sup>2) xs))) xs)) = 1"
proof -
  let ?q = "sum_list (map (\<lambda>x::real. x\<^sup>2) xs)"
  have q: "0 \<le> ?q" by (rule sum_list_squares_nonneg)
  have nz: "?q \<noteq> 0" using assms by auto
  have "sum_list (map (\<lambda>x. x\<^sup>2) (map (\<lambda>x. x / sqrt ?q) xs))
        = sum_list (map (\<lambda>x. x\<^sup>2 / (sqrt ?q)\<^sup>2) xs)"
    by (simp add: comp_def power_divide)
  also have "\<dots> = ?q / (sqrt ?q)\<^sup>2"
    by (rule sum_list_divide_const)
  also have "\<dots> = 1" using q nz by simp
  finally show ?thesis .
qed

lemma sum_squares_zero_iff:
  "sum_list (map (\<lambda>x::real. x\<^sup>2) xs) = 0 \<longleftrightarrow> (\<forall>x\<in>set xs. x = 0)"
proof (induction xs)
  case Nil
  then show ?case by simp
next
  case (Cons a xs)
  have "a\<^sup>2 + sum_list (map (\<lambda>x. x\<^sup>2) xs) = 0 \<longleftrightarrow> a = 0 \<and> sum_list (map (\<lambda>x. x\<^sup>2) xs) = 0"
    using sum_list_squares_nonneg [of xs] zero_le_power2 [of a]
    by (auto simp: add_nonneg_eq_0_iff)
  with Cons show ?case by simp
qed

lemma get_mock_embedding_Inr:
  assumes "get_mock_embedding env t n s = (Inr v, s')" and "0 < n"
  shows "length v = n \<and> sqrt (sum_list (map (\<lambda>x. x\<^sup>2) v)) = 1"
proof -
  obtain xs s2 where d: "draws env n (rng_seed env t) = (xs, s2)"
    by (cases "draws env n (rng_seed env t)")
  have len: "length xs = n" using d by (rule length_draws)
  with \<open>0 < n\<close> have ne: "xs \<noteq> []" by auto
  let ?m = "sqrt (sum_list (map (\<lambda>x. x\<^sup>2) xs))"
  from assms(1) d ne have m: "?m \<noteq> 0" and v: "v = map (\<lambda>x. x / ?m) xs"
    by (auto simp: get_mock_embedding_def Let_def split: if_splits)
  have "sum_list (map (\<lambda>x. x\<^sup>2) v) = 1"
    unfolding v using m by (rule normalized_squares)
  with len v show ?thesis by simp
qed

lemma get_mock_embedding_total:
  assumes "\<exists>x\<in>set (fst (draws env n (rng_seed env t))). x \<noteq> 0"
  shows "\<exists>v. fst (get_mock_embedding env t n s) = Inr v"
proof -
  obtain xs s2 where d: "draws env n (rng_seed env t) = (xs, s2)"
    by (cases "draws env n (rng_seed env t)")
  with assms have "sqrt (sum_list (map (\<lambda>x. x\<^sup>2) xs)) \<noteq> 0"
    by (simp add: sum_squares_zero_iff)
  with d show ?thesis by (simp add: get_mock_embedding_def Let_def)
qed

lemma get_embedding_reseeds:
  "fst (get_embedding env t s) = fst (get_embedding env t s')"
  by (simp add: get_embedding_def get_mock_embedding_def Let_def split: prod.splits sum.splits)

lemma demo_draws_nonzero:
  "\<exists>x\<in>set (fst (draws demo_env (Suc n) s)). x \<noteq> 0"
proof -
  have "real s + 3 \<noteq> 2" by linarith
  then have "fst (uniform demo_env (- 1) 1 s) \<noteq> 0"
    by (simp add: uniform_def demo_env_def divide_eq_eq_numeral1)
  then show ?thesis
    by (auto split: prod.splits)
qed

lemma demo_draws_1536: "\<exists>x\<in>set (fst (draws demo_env 1536 s)). x \<noteq> 0"
  using demo_draws_nonzero [of 1535 s] by simp

lemma get_embedding_blank:
  "fst (get_embedding env t s) = Inr None \<longleftrightarrow> t = [] \<or> (\<forall>c\<in>set t. isspace c)"
  by (auto simp: get_embedding_def Let_def strip_empty_iff split: prod.splits sum.splits)

lemma get_embedding_mock:
  assumes "use_mock_embeddings env" and "strip t \<noteq> []"
  shows "fst (get_embedding env t s) =
         map_sum id Some (fst (get_mock_embedding env (take 8000 t) 1536 s'))"
proof -
  have t: "t \<noteq> []" using assms(2) by (auto simp: strip_def)
  have tk: "(if length t > 8000 then take 8000 t else t) = take 8000 t" by simp
  show ?thesis
    using assms t unfolding get_embedding_def Let_def tk
    by (simp add: get_mock_embedding_def Let_def split: prod.splits sum.splits)
qed

lemma isspace_space: "isspace (CHR '' '')"
  by (simp add: isspace_def)

lemma not_isspace_a: "\<not> isspace (CHR ''a'')"
  by (simp add: isspace_def)

section \<open>Claims about the embedding provider\<close>

text \<open>
  Claim C6. The deterministic strategy is deterministic: what \<^verbatim>\<open>get_mock_embedding\<close>
  returns for a text does not depend on the state the \<^verbatim>\<open>random\<close> module is in at
  the call, so two calls on the same text give the same vector. A vector it returns has
  1536 components and Euclidean norm 1 (a \<^verbatim>\<open>float\<close> being a real number here). It
  returns a vector unless all 1536 numbers drawn for the text are zero.
\<close>

theorem get_mock_embedding_deterministic:
  "fst (get_mock_embedding env t 1536 s) = fst (get_mock_embedding env t 1536 s') \<and>
   (\<forall>v. fst (get_mock_embedding env t 1536 s) = Inr v \<longrightarrow>
        length v = 1536 \<and> sqrt (sum_list (map (\<lambda>x. x\<^sup>2) v)) = 1) \<and>
   ((\<exists>x\<in>set (fst (draws env 1536 (rng_seed env t))). x \<noteq> 0) \<longrightarrow>
      (\<exists>v. fst (get_mock_embedding env t 1536 s) = Inr v))"
proof (intro conjI allI impI)
  show "fst (get_mock_embedding env t 1536 s) = fst (get_mock_embedding env t 1536 s')"
    by (simp add: get_mock_embedding_reseeds [of env t 1536 s s'])
next
  fix v
  assume "fst (get_mock_embedding env t 1536 s) = Inr v"
  then have "get_mock_embedding env t 1536 s = (Inr v, snd (get_mock_embedding env t 1536 s))"
    by (metis prod.collapse)
  then have "length v = 1536 \<and> sqrt (sum_list (map (\<lambda>x. x\<^sup>2) v)) = 1"
    by (rule get_mock_embedding_Inr) simp
  then show "length v = 1536" and "sqrt (sum_list (map (\<lambda>x. x\<^sup>2) v)) = 1" by simp_all
next
  assume "\<exists>x\<in>set (fst (draws env 1536 (rng_seed env t))). x \<noteq> 0"
  then show "\<exists>v. fst (get_mock_embedding env t 1536 s) = Inr v"
    by (rule get_mock_embedding_total)
qed

theorem get_mock_embedding_deterministic_witness:
  "fst (get_mock_embedding demo_env ''hello world'' 1536 0)
     = fst (get_mock_embedding demo_env ''hello world'' 1536 42) \<and>
   (\<exists>v. fst (get_mock_embedding demo_env ''hello world'' 1536 0) = Inr v \<and>
        length v = 1536 \<and> sqrt (sum_list (map (\<lambda>x. x\<^sup>2) v)) = 1)"
  using get_mock_embedding_deterministic [of demo_env "''hello world''" 0 42]
    demo_draws_1536 [of "rng_seed demo_env ''hello world''"]
  by blast

text \<open>
  Claim C8. \<^verbatim>\<open>get_embedding\<close> returns \<^verbatim>\<open>None\<close> exactly for the empty and the
  whitespace-only text, under either strategy. Under the deterministic strategy every
  other text gets a vector of 1536 components and norm 1, computed from its first 8000
  characters (unless all 1536 numbers drawn for them are zero).
\<close>

theorem get_embedding_none_iff_blank:
  "(fst (get_embedding env t s) = Inr None \<longleftrightarrow> t = [] \<or> (\<forall>c\<in>set t. isspace c)) \<and>
   (use_mock_embeddings env \<longrightarrow> \<not> (\<forall>c\<in>set t. isspace c) \<longrightarrow>
    (\<exists>x\<in>set (fst (draws env 1536 (rng_seed env (take 8000 t)))). x \<noteq> 0) \<longrightarrow>
      (\<exists>v. fst (get_embedding env t s) = Inr (Some v) \<and>
           length v = 1536 \<and> sqrt (sum_list (map (\<lambda>x. x\<^sup>2) v)) = 1))"
proof (intro conjI impI)
  show "fst (get_embedding env t s) = Inr None \<longleftrightarrow> t = [] \<or> (\<forall>c\<in>set t. isspace c)"
    by (rule get_embedding_blank)
next
  assume mock: "use_mock_embeddings env"
    and nb: "\<not> (\<forall>c\<in>set t. isspace c)"
    and nz: "\<exists>x\<in>set (fst (draws env 1536 (rng_seed env (take 8000 t)))). x \<noteq> 0"
  from nb have st: "strip t \<noteq> []" by (simp add: strip_empty_iff)
  from get_mock_embedding_total [OF nz, of s]
  obtain v where v: "fst (get_mock_embedding env (take 8000 t) 1536 s) = Inr v" ..
  then have "get_mock_embedding env (take 8000 t) 1536 s
             = (Inr v, snd (get_mock_embedding env (take 8000 t) 1536 s))"
    by (metis prod.collapse)
  then have "length v = 1536 \<and> sqrt (sum_list (map (\<lambda>x. x\<^sup>2) v)) = 1"
    by (rule get_mock_embedding_Inr) simp
  moreover have "fst (get_embedding env t s) = Inr (Some v)"
    using get_embedding_mock [OF mock st, of s s] v by simp
  ultimately show "\<exists>v. fst (get_embedding env t s) = Inr (Some v) \<and>
           length v = 1536 \<and> sqrt (sum_list (map (\<lambda>x. x\<^sup>2) v)) = 1"
    by blast
qed

theorem get_embedding_none_iff_blank_witness:
  "fst (get_embedding demo_env ''   '' 0) = Inr None \<and>
   (\<exists>v. fst (get_embedding demo_env ''a'' 0) = Inr (Some v) \<and>
        length v = 1536 \<and> sqrt (sum_list (map (\<lambda>x. x\<^sup>2) v)) = 1)"
proof -
  have m: "use_mock_embeddings demo_env" by (simp add: demo_env_def)
  have b: "\<forall>c\<in>set ''   ''. isspace c" by (simp add: isspace_space)
  have nb: "\<not> (\<forall>c\<in>set ''a''. isspace c)" by (simp add: not_isspace_a)
  show ?thesis
    using get_embedding_none_iff_blank [of demo_env "''   ''" 0]
      get_embedding_none_iff_blank [of demo_env "''a''" 0] m b nb
      demo_draws_1536 [of "rng_seed demo_env (take 8000 ''a'')"]
    by blast
qed




section \<open>The pipeline when nothing fails\<close>

subsection \<open>Store calls that succeed\<close>

lemma and_then_fst: "fst (m w) = Inr a \<Longrightarrow> and_then m f w = f a (snd (m w))"
  by (cases "m w") (simp add: and_then_def)

lemma store_call_quiet: "store_faults w = [] \<Longrightarrow> store_call w = (Inr (), w)"
  by (simp add: store_call_def)

lemma query_file_quiet: "store_faults w = [] \<Longrightarrow> query_file fid w = (Inr (files w fid), w)"
  by (simp add: query_file_def and_then_def store_call_quiet)

lemma commit_quiet: "store_faults w = [] \<Longrightarrow> commit w = (Inr (), w)"
  by (simp add: commit_def store_call_quiet)

lemma flush_quiet: "store_faults w = [] \<Longrightarrow> flush w = (Inr (), w)"
  by (simp add: flush_def store_call_quiet)

lemma query_chunk_ids_quiet:
  "store_faults w = [] \<Longrightarrow>
   query_chunk_ids fid w = (Inr (map chunk_id (chunks_of fid w)), w)"
  by (simp add: query_chunk_ids_def and_then_def store_call_quiet chunks_of_def)

lemma delete_embeddings_quiet:
  "store_faults w = [] \<Longrightarrow>
   delete_embeddings ids w =
     (Inr (), w\<lparr>embeddings := filter (\<lambda>e. embedding_chunk_id e \<notin> set ids) (embeddings w)\<rparr>)"
  by (simp add: delete_embeddings_def and_then_def store_call_quiet)

lemma delete_chunks_quiet:
  "store_faults w = [] \<Longrightarrow>
   delete_chunks fid w = (Inr (), w\<lparr>chunks := filter (\<lambda>c. file_id c \<noteq> fid) (chunks w)\<rparr>)"
  by (simp add: delete_chunks_def and_then_def store_call_quiet)

lemma count_chunks_quiet:
  "store_faults w = [] \<Longrightarrow> count_chunks fid w = (Inr (length (chunks_of fid w)), w)"
  by (simp add: count_chunks_def and_then_def store_call_quiet chunks_of_def)

lemmas quiet_simps =
  query_file_quiet commit_quiet flush_quiet query_chunk_ids_quiet delete_embeddings_quiet
  delete_chunks_quiet count_chunks_quiet

text \<open>The world after the deletion phase.\<close>

lemma delete_existing_quiet:
  assumes "store_faults w = []"
  shows "delete_existing fid w =
     (Inr (),
      w\<lparr>embeddings := filter (\<lambda>e. embedding_chunk_id e \<notin> chunk_id ` set (chunks_of fid w))
                         (embeddings w),
        chunks := filter (\<lambda>c. file_id c \<noteq> fid) (chunks w)\<rparr>)"
proof (cases "chunks_of fid w = []")
  case True
  with assms show ?thesis
    by (simp add: delete_existing_def and_then_def quiet_simps result_def)
next
  case False
  with assms show ?thesis
    by (simp add: delete_existing_def and_then_def quiet_simps result_def chunks_of_def)
qed

subsection \<open>One iteration\<close>

lemma embed_chunk_returns: "fst (embed_chunk env cid c w) = Inr ()"
  by (simp add: embed_chunk_def and_then_def uuid4_def add_embedding_def
      split: prod.splits sum.splits option.splits)

lemma embed_chunk_frame:
  "files (snd (embed_chunk env cid c w)) = files w \<and>
   chunks (snd (embed_chunk env cid c w)) = chunks w \<and>
   store_faults (snd (embed_chunk env cid c w)) = store_faults w \<and>
   next_uuid w \<le> next_uuid (snd (embed_chunk env cid c w))"
  by (simp add: embed_chunk_def and_then_def uuid4_def add_embedding_def
      split: prod.splits sum.splits option.splits)

lemma embed_chunk_embeddings:
  "\<exists>es. embeddings (snd (embed_chunk env cid c w)) = embeddings w @ es \<and>
        (\<forall>e\<in>set es. embedding_chunk_id e = cid \<and>
                     embedding_model e = ''text-embedding-ada-002'') \<and>
        (es = [] \<longleftrightarrow> embedding_failed (fst (get_embedding env c (rng w))))"
  by (simp add: embed_chunk_def and_then_def uuid4_def add_embedding_def embedding_failed_def
      split: prod.splits sum.splits option.splits)

text \<open>One iteration of the loop when its tokenizer and store calls succeed.\<close>

lemma process_chunk_quiet:
  assumes "store_faults w = []" and "count_tokens env c = Inr n"
  shows "process_chunk env fid i c w =
         embed_chunk env (next_uuid w) c
           (w\<lparr>next_uuid := Suc (next_uuid w),
              chunks := chunks w @ [\<lparr>chunk_id = next_uuid w, chunk_number = i + 1,
                                     chunk_txt = c, token_count = n, file_id = fid\<rparr>]\<rparr>)"
  using assms
  by (simp add: process_chunk_def and_then_def call_def uuid4_def add_chunk_def flush_quiet)

lemma process_chunk_step:
  fixes fid :: uuid and i :: nat
  assumes "store_faults w = []" and "count_tokens env c = Inr n"
  defines "w' \<equiv> snd (process_chunk env fid i c w)"
  shows "fst (process_chunk env fid i c w) = Inr ()"
    and "files w' = files w"
    and "store_faults w' = []"
    and "next_uuid w < next_uuid w'"
    and "chunks w' = chunks w @ [\<lparr>chunk_id = next_uuid w, chunk_number = i + 1,
                                   chunk_txt = c, token_count = n, file_id = fid\<rparr>]"
    and "\<exists>es. embeddings w' = embeddings w @ es \<and>
              (\<forall>e\<in>set es. embedding_chunk_id e = next_uuid w \<and>
                           embedding_model e = ''text-embedding-ada-002'') \<and>
              (es = [] \<longleftrightarrow> embedding_failed (fst (get_embedding env c (rng w))))"
proof -
  let ?w1 = "w\<lparr>next_uuid := Suc (next_uuid w),
              chunks := chunks w @ [\<lparr>chunk_id = next_uuid w, chunk_number = i + 1,
                                     chunk_txt = c, token_count = n, file_id = fid\<rparr>]\<rparr>"
  have eq: "process_chunk env fid i c w = embed_chunk env (next_uuid w) c ?w1"
    using assms(1,2) by (rule process_chunk_quiet)
  show "fst (process_chunk env fid i c w) = Inr ()"
    by (simp add: eq embed_chunk_returns)
  show "files w' = files w" "store_faults w' = []"
       "chunks w' = chunks w @ [\<lparr>chunk_id = next_uuid w, chunk_number = i + 1,
                                   chunk_txt = c, token_count = n, file_id = fid\<rparr>]"
    using embed_chunk_frame [of env "next_uuid w" c ?w1] assms(1)
    by (simp_all add: w'_def eq)
  show "next_uuid w < next_uuid w'"
    using embed_chunk_frame [of env "next_uuid w" c ?w1] by (simp add: w'_def eq)
  show "\<exists>es. embeddings w' = embeddings w @ es \<and>
              (\<forall>e\<in>set es. embedding_chunk_id e = next_uuid w \<and>
                           embedding_model e = ''text-embedding-ada-002'') \<and>
              (es = [] \<longleftrightarrow> embedding_failed (fst (get_embedding env c (rng w))))"
    using embed_chunk_embeddings [of env "next_uuid w" c ?w1] by (simp add: w'_def eq)
qed

text \<open>
  The loop when the tokenizer and the store calls succeed: it returns, and the rows it
  adds are numbered from \<open>i + 1\<close> on and carry fresh identifiers.
\<close>

lemma process_chunks_quiet:
  assumes "store_faults w = []" and "\<forall>c\<in>set cs. \<exists>n. count_tokens env c = Inr n"
  shows "fst (process_chunks env fid i cs w) = Inr () \<and>
         files (snd (process_chunks env fid i cs w)) = files w \<and>
         store_faults (snd (process_chunks env fid i cs w)) = [] \<and>
         next_uuid w \<le> next_uuid (snd (process_chunks env fid i cs w)) \<and>
         (\<exists>new es.
        chunks (snd (process_chunks env fid i cs w)) = chunks w @ new \<and>
        embeddings (snd (process_chunks env fid i cs w)) = embeddings w @ es \<and>
        map chunk_number new = map (\<lambda>k. i + 1 + k) [0..<length cs] \<and>
        map chunk_txt new = cs \<and>
        (\<forall>c\<in>set new. file_id c = fid \<and> next_uuid w \<le> chunk_id c) \<and>
        (\<forall>e\<in>set es. embedding_chunk_id e \<in> chunk_id ` set new \<and>
                     embedding_model e = ''text-embedding-ada-002'') \<and>
        (\<forall>k<length cs. (\<exists>e\<in>set es. embedding_chunk_id e = chunk_id (new ! k)) =
            (\<not> embedding_failed (fst (get_embedding env (cs ! k) (rng w))))))"
  using assms
proof (induction cs arbitrary: i w)
  case Nil
  then show ?case by (simp add: result_def)
next
  case (Cons c cs)
  from Cons.prems(2) obtain n where n: "count_tokens env c = Inr n" by auto
  let ?w1 = "snd (process_chunk env fid i c w)"
  let ?row = "\<lparr>chunk_id = next_uuid w, chunk_number = i + 1, chunk_txt = c,
               token_count = n, file_id = fid\<rparr>"
  note st = process_chunk_step [OF Cons.prems(1) n, of fid i]
  from st(6) obtain es0 where es0: "embeddings ?w1 = embeddings w @ es0"
    and es0_id: "\<forall>e\<in>set es0. embedding_chunk_id e = next_uuid w \<and>
                    embedding_model e = ''text-embedding-ada-002''"
    and es0_nil: "es0 = [] \<longleftrightarrow> embedding_failed (fst (get_embedding env c (rng w)))"
    by blast
  have run: "process_chunks env fid i (c # cs) w = process_chunks env fid (Suc i) cs ?w1"
    using st(1) by (simp add: and_then_fst)
  let ?w2 = "snd (process_chunks env fid (Suc i) cs ?w1)"
  from Cons.prems(2) have toks: "\<forall>c\<in>set cs. \<exists>n. count_tokens env c = Inr n" by simp
  note ih = Cons.IH [OF st(3) toks, of "Suc i"]
  from ih have ret: "fst (process_chunks env fid (Suc i) cs ?w1) = Inr ()"
    and fl: "files ?w2 = files ?w1" and sf: "store_faults ?w2 = []"
    and nu: "next_uuid ?w1 \<le> next_uuid ?w2"
    and rows: "(\<exists>new es.
        chunks ?w2 = chunks ?w1 @ new \<and>
        embeddings ?w2 = embeddings ?w1 @ es \<and>
        map chunk_number new = map (\<lambda>k. Suc i + 1 + k) [0..<length cs] \<and>
        map chunk_txt new = cs \<and>
        (\<forall>c\<in>set new. file_id c = fid \<and> next_uuid ?w1 \<le> chunk_id c) \<and>
        (\<forall>e\<in>set es. embedding_chunk_id e \<in> chunk_id ` set new \<and>
                     embedding_model e = ''text-embedding-ada-002'') \<and>
        (\<forall>k<length cs. (\<exists>e\<in>set es. embedding_chunk_id e = chunk_id (new ! k)) =
            (\<not> embedding_failed (fst (get_embedding env (cs ! k) (rng ?w1))))))"
    by simp_all
  from rows obtain new es where
        ch: "chunks ?w2 = chunks ?w1 @ new"
    and em: "embeddings ?w2 = embeddings ?w1 @ es"
    and num: "map chunk_number new = map (\<lambda>k. Suc i + 1 + k) [0..<length cs]"
    and txs: "map chunk_txt new = cs"
    and own: "\<forall>c\<in>set new. file_id c = fid \<and> next_uuid ?w1 \<le> chunk_id c"
    and ref: "\<forall>e\<in>set es. embedding_chunk_id e \<in> chunk_id ` set new \<and>
                 embedding_model e = ''text-embedding-ada-002''"
    and fail: "\<forall>k<length cs. (\<exists>e\<in>set es. embedding_chunk_id e = chunk_id (new ! k)) =
            (\<not> embedding_failed (fst (get_embedding env (cs ! k) (rng ?w1))))"
    by blast
  have len: "length new = length cs" using txs by (metis length_map)
  have newer: "\<forall>c\<in>set new. next_uuid w < chunk_id c"
    using own st(4) by fastforce
  have "(\<exists>new es.
        chunks ?w2 = chunks w @ new \<and>
        embeddings ?w2 = embeddings w @ es \<and>
        map chunk_number new = map (\<lambda>k. i + 1 + k) [0..<length (c # cs)] \<and>
        map chunk_txt new = (c # cs) \<and>
        (\<forall>c\<in>set new. file_id c = fid \<and> next_uuid w \<le> chunk_id c) \<and>
        (\<forall>e\<in>set es. embedding_chunk_id e \<in> chunk_id ` set new \<and>
                     embedding_model e = ''text-embedding-ada-002'') \<and>
        (\<forall>k<length (c # cs). (\<exists>e\<in>set es. embedding_chunk_id e = chunk_id (new ! k)) =
            (\<not> embedding_failed (fst (get_embedding env ((c # cs) ! k) (rng w))))))"
  proof (intro exI [of _ "?row # new"] exI [of _ "es0 @ es"] conjI)
    show "chunks ?w2 = chunks w @ ?row # new" by (simp add: ch st(5))
    show "embeddings ?w2 = embeddings w @ es0 @ es" by (simp add: em es0)
    show "map chunk_number (?row # new) = map (\<lambda>k. i + 1 + k) [0..<length (c # cs)]"
    proof -
      have "[0..<length (c # cs)] = 0 # map Suc [0..<length cs]"
        by (simp add: upt_conv_Cons map_Suc_upt del: upt_Suc)
      then show ?thesis by (simp add: num comp_def)
    qed
    show "map chunk_txt (?row # new) = c # cs" by (simp add: txs)
    show "\<forall>x\<in>set (?row # new). file_id x = fid \<and> next_uuid w \<le> chunk_id x"
      using own newer by auto
    show "\<forall>e\<in>set (es0 @ es). embedding_chunk_id e \<in> chunk_id ` set (?row # new) \<and>
             embedding_model e = ''text-embedding-ada-002''"
      using es0_id ref by auto
    show "\<forall>k<length (c # cs).
            (\<exists>e\<in>set (es0 @ es). embedding_chunk_id e = chunk_id ((?row # new) ! k)) =
            (\<not> embedding_failed (fst (get_embedding env ((c # cs) ! k) (rng w))))"
    proof (intro allI impI)
      fix k
      assume k: "k < length (c # cs)"
      show "(\<exists>e\<in>set (es0 @ es). embedding_chunk_id e = chunk_id ((?row # new) ! k)) =
            (\<not> embedding_failed (fst (get_embedding env ((c # cs) ! k) (rng w))))"
      proof (cases k)
        case 0
        have later: "\<forall>e\<in>set es. embedding_chunk_id e \<noteq> next_uuid w"
          using ref newer by fastforce
        have "(\<exists>e\<in>set es0. embedding_chunk_id e = next_uuid w) = (es0 \<noteq> [])"
          using es0_id by (cases es0) auto
        with later es0_nil 0 show ?thesis by auto
      next
        case (Suc j)
        with k have j: "j < length cs" by simp
        have same: "fst (get_embedding env (cs ! j) (rng ?w1))
                    = fst (get_embedding env (cs ! j) (rng w))"
          by (rule get_embedding_reseeds)
        from fail j have a: "(\<exists>e\<in>set es. embedding_chunk_id e = chunk_id (new ! j)) =
            (\<not> embedding_failed (fst (get_embedding env (cs ! j) (rng ?w1))))"
          by blast
        have "new ! j \<in> set new" using j len by simp
        with newer have "next_uuid w < chunk_id (new ! j)" by blast
        with es0_id have b: "\<forall>e\<in>set es0. embedding_chunk_id e \<noteq> chunk_id (new ! j)"
          by fastforce
        from a b Suc same show ?thesis by auto
      qed
    qed
  qed
  moreover have "next_uuid w \<le> next_uuid ?w2" using st(4) nu by linarith
  ultimately show ?case
    unfolding run using ret fl sf st(2) by simp
qed

lemma set_status_Some:
  "files w fid = Some f \<Longrightarrow>
   set_status fid s w = (Inr (), w\<lparr>files := (files w)(fid \<mapsto> f\<lparr>status := s\<rparr>)\<rparr>)"
  by (simp add: set_status_def)

text \<open>A run of \<^verbatim>\<open>process_file\<close> in which nothing fails, up to the loop and after it.\<close>

lemma process_file_body_quiet:
  assumes f: "files w fid = Some f" and q: "store_faults w = []"
    and ex: "extract_text_from_file env path = Inr tx"
    and ne: "\<not> startswith tx ''Error:''"
    and ch: "chunk_text env tx 512 50 = Inr cs"
  shows "process_file_body env fid path w =
         and_then (process_chunks env fid 0 cs)
           (\<lambda>_. and_then commit (\<lambda>_. and_then (set_status fid ''Embedded'') (\<lambda>_. commit)))
           (w\<lparr>files := (files w)(fid \<mapsto> f\<lparr>status := ''Processing''\<rparr>),
              embeddings := filter (\<lambda>e. embedding_chunk_id e \<notin> chunk_id ` set (chunks_of fid w))
                              (embeddings w),
              chunks := filter (\<lambda>c. file_id c \<noteq> fid) (chunks w)\<rparr>)"
  unfolding process_file_body_def using assms
  by (simp add: and_then_def quiet_simps delete_existing_quiet set_status_def call_def
      result_def chunks_of_def)

lemma process_file_rows:
  assumes f: "files w fid = Some f" and q: "store_faults w = []"
    and ex: "extract_text_from_file env path = Inr tx"
    and ne: "\<not> startswith tx ''Error:''"
    and ch: "chunk_text env tx 512 50 = Inr cs"
    and tok: "\<forall>c\<in>set cs. \<exists>n. count_tokens env c = Inr n"
  shows "\<exists>w' new es.
           process_file env fid path w = (Inr (), w') \<and>
           files w' = (files w)(fid \<mapsto> f\<lparr>status := ''Embedded''\<rparr>) \<and>
           store_faults w' = [] \<and>
           chunks w' = filter (\<lambda>c. file_id c \<noteq> fid) (chunks w) @ new \<and>
           embeddings w' =
             filter (\<lambda>e. embedding_chunk_id e \<notin> chunk_id ` set (chunks_of fid w)) (embeddings w)
             @ es \<and>
           map chunk_number new = [1..<Suc (length cs)] \<and>
           map chunk_txt new = cs \<and>
           (\<forall>c\<in>set new. file_id c = fid \<and> next_uuid w \<le> chunk_id c) \<and>
           (\<forall>e\<in>set es. embedding_chunk_id e \<in> chunk_id ` set new \<and>
                        embedding_model e = ''text-embedding-ada-002'') \<and>
           (\<forall>k<length cs. (\<exists>e\<in>set es. embedding_chunk_id e = chunk_id (new ! k)) =
            (\<not> embedding_failed (fst (get_embedding env (cs ! k) s))))"
proof -
  let ?w2 = "w\<lparr>files := (files w)(fid \<mapsto> f\<lparr>status := ''Processing''\<rparr>),
              embeddings := filter (\<lambda>e. embedding_chunk_id e \<notin> chunk_id ` set (chunks_of fid w))
                              (embeddings w),
              chunks := filter (\<lambda>c. file_id c \<noteq> fid) (chunks w)\<rparr>"
  let ?w3 = "snd (process_chunks env fid 0 cs ?w2)"
  let ?w4 = "?w3\<lparr>files := (files w)(fid \<mapsto> f\<lparr>status := ''Embedded''\<rparr>)\<rparr>"
  have q2: "store_faults ?w2 = []" using q by simp
  note L = process_chunks_quiet [OF q2 tok, of fid 0]
  from L have ret: "fst (process_chunks env fid 0 cs ?w2) = Inr ()"
    and fl: "files ?w3 = files ?w2" and q3: "store_faults ?w3 = []"
    by simp_all
  from L obtain new es where
        a: "chunks ?w3 = chunks ?w2 @ new"
    and b: "embeddings ?w3 = embeddings ?w2 @ es"
    and c: "map chunk_number new = map (\<lambda>k. 0 + 1 + k) [0..<length cs]"
    and d: "map chunk_txt new = cs"
    and e: "\<forall>c\<in>set new. file_id c = fid \<and> next_uuid ?w2 \<le> chunk_id c"
    and g: "\<forall>e\<in>set es. embedding_chunk_id e \<in> chunk_id ` set new \<and>
                 embedding_model e = ''text-embedding-ada-002''"
    and h: "\<forall>k<length cs. (\<exists>e\<in>set es. embedding_chunk_id e = chunk_id (new ! k)) =
            (\<not> embedding_failed (fst (get_embedding env (cs ! k) (rng ?w2))))"
    by blast
  have st: "files ?w3 fid = Some (f\<lparr>status := ''Processing''\<rparr>)" by (simp add: fl)
  have "process_file_body env fid path w =
        and_then commit (\<lambda>_. and_then (set_status fid ''Embedded'') (\<lambda>_. commit)) ?w3"
    by (simp only: process_file_body_quiet [OF f q ex ne ch]
        and_then_fst [of "process_chunks env fid 0 cs" ?w2 "()", OF ret])
  also have "\<dots> = (Inr (), ?w4)"
    using q3 st by (simp add: and_then_def commit_quiet set_status_def fl)
  finally have "process_file env fid path w = (Inr (), ?w4)"
    by (simp add: process_file_def)
  moreover have "files ?w4 = (files w)(fid \<mapsto> f\<lparr>status := ''Embedded''\<rparr>)" by simp
  moreover have "store_faults ?w4 = []" using q3 by simp
  moreover have "chunks ?w4 = filter (\<lambda>c. file_id c \<noteq> fid) (chunks w) @ new"
    using a by simp
  moreover have "embeddings ?w4 =
             filter (\<lambda>e. embedding_chunk_id e \<notin> chunk_id ` set (chunks_of fid w)) (embeddings w)
             @ es"
    using b by simp
  moreover have "map chunk_number new = [1..<Suc (length cs)]"
    using c map_Suc_upt [of 0 "length cs"] by simp
  moreover have "\<forall>c\<in>set new. file_id c = fid \<and> next_uuid w \<le> chunk_id c"
    using e by simp
  moreover have "\<forall>k<length cs. (\<exists>e\<in>set es. embedding_chunk_id e = chunk_id (new ! k)) =
            (\<not> embedding_failed (fst (get_embedding env (cs ! k) s)))"
    using h get_embedding_reseeds [of env _ s "rng ?w2"] by simp
  ultimately show ?thesis using d g by blast
qed

subsection \<open>The sample run\<close>

lemma demo_file: "files demo_world 1 = Some \<lparr>filename = ''notes.txt'', status = ''Embedded''\<rparr>"
  by (simp add: demo_world_def)

lemma demo_quiet: "store_faults demo_world = []"
  by (simp add: demo_world_def)

lemma demo_extract_txt: "extract_text_from_file demo_env ''notes.txt'' = Inr ''alpha beta gamma''"
  by (simp add: extract_text_from_file_def splitext_def rfind_def lower_def lower_char_def
      demo_env_def Let_def)

lemma demo_extract_pdf:
  "extract_text_from_file demo_env ''report.pdf''
   = Inr ''Error extracting text from PDF: EOF marker not found''"
  by (simp add: extract_text_from_file_def splitext_def rfind_def lower_def lower_char_def
      demo_env_def Let_def)

lemma demo_extract_xyz:
  "extract_text_from_file demo_env ''report.xyz'' = Inr ''Error: Unsupported file type .xyz''"
  by (simp add: extract_text_from_file_def splitext_def rfind_def lower_def lower_char_def
      demo_env_def Let_def)

lemma demo_chunks:
  "chunk_text demo_env ''alpha beta gamma'' 512 50 = Inr [''alpha'', '' '', ''gamma'']"
  by (simp add: chunk_text_def demo_env_def)

lemma demo_chunks_pdf:
  "chunk_text demo_env ''Error extracting text from PDF: EOF marker not found'' 512 50
   = Inr [''Error extracting text from PDF: EOF marker not found'']"
  by (simp add: chunk_text_def demo_env_def)

lemma demo_tokens: "\<exists>n. count_tokens demo_env c = Inr n"
  by (simp add: count_tokens_def demo_env_def)

lemma demo_fresh: "uuids_fresh demo_world"
  by (simp add: uuids_fresh_def demo_world_def)


lemma demo_blank_fails: "embedding_failed (fst (get_embedding demo_env '' '' s))"
proof -
  have "fst (get_embedding demo_env '' '' s) = Inr None"
    by (simp add: get_embedding_blank isspace_space)
  then show ?thesis by (simp add: embedding_failed_def)
qed

subsection \<open>A whole run\<close>

lemma chunks_of_append_new:
  assumes "\<forall>c\<in>set new. file_id c = fid"
  shows "filter (\<lambda>c. file_id c = fid) (filter (\<lambda>c. file_id c \<noteq> fid) old @ new) = new"
proof -
  have "filter (\<lambda>c. file_id c = fid) (filter (\<lambda>c. file_id c \<noteq> fid) old) = []"
    by (simp add: filter_empty_conv)
  moreover have "filter (\<lambda>c. file_id c = fid) new = new"
    using assms by (simp add: filter_id_conv)
  ultimately show ?thesis by simp
qed

lemma process_file_ingests:
  assumes "files w fid = Some f" and "store_faults w = []"
    and "extract_text_from_file env path = Inr tx"
    and "\<not> startswith tx ''Error:''"
    and "chunk_text env tx 512 50 = Inr cs"
    and "\<forall>c\<in>set cs. \<exists>n. count_tokens env c = Inr n"
  shows "fst (process_file env fid path w) = Inr () \<and>
         map_option status (files (snd (process_file env fid path w)) fid) = Some ''Embedded'' \<and>
         map chunk_number (chunks_of fid (snd (process_file env fid path w)))
           = [1..<Suc (length cs)] \<and>
         map chunk_txt (chunks_of fid (snd (process_file env fid path w))) = cs"
proof -
  from process_file_rows [OF assms, where s = "rng w"] obtain w' new es where
        run: "process_file env fid path w = (Inr (), w')"
    and fl: "files w' = (files w)(fid \<mapsto> f\<lparr>status := ''Embedded''\<rparr>)"
    and chs: "chunks w' = filter (\<lambda>c. file_id c \<noteq> fid) (chunks w) @ new"
    and num: "map chunk_number new = [1..<Suc (length cs)]"
    and txs: "map chunk_txt new = cs"
    and own: "\<forall>c\<in>set new. file_id c = fid \<and> next_uuid w \<le> chunk_id c"
    by blast
  have "chunks_of fid w' = new"
    unfolding chunks_of_def chs using own by (intro chunks_of_append_new) blast
  with run fl num txs show ?thesis by simp
qed

text \<open>
  An extraction result that starts with \<open>Error:\<close> ends the run: the status becomes
  \<open>Error\<close> and the document has no chunk rows. The sample file with an unsupported
  extension takes this path.
\<close>

lemma process_file_extraction_error:
  assumes "files w fid = Some f" and "store_faults w = []"
    and "extract_text_from_file env path = Inr tx"
    and "startswith tx ''Error:''"
  shows "fst (process_file env fid path w) = Inr () \<and>
         files (snd (process_file env fid path w)) fid = Some (f\<lparr>status := ''Error''\<rparr>) \<and>
         chunks_of fid (snd (process_file env fid path w)) = []"
  using assms
  by (simp add: process_file_def process_file_body_def and_then_def quiet_simps
      delete_existing_quiet set_status_def call_def chunks_of_def)

lemma process_file_unsupported_extension:
  "fst (process_file demo_env 1 ''report.xyz'' demo_world) = Inr () \<and>
   map_option status (files (snd (process_file demo_env 1 ''report.xyz'' demo_world)) 1)
     = Some ''Error'' \<and>
   chunks_of 1 (snd (process_file demo_env 1 ''report.xyz'' demo_world)) = []"
proof -
  have "startswith ''Error: Unsupported file type .xyz'' ''Error:''"
    by (simp add: startswith_def)
  from process_file_extraction_error [OF demo_file demo_quiet demo_extract_xyz this]
  show ?thesis by simp
qed

subsection \<open>Relations that every step of a run keeps\<close>

lemma keepsD: "keeps R m \<Longrightarrow> R w (snd (m w))"
  by (simp add: keeps_def)

lemma keeps_and_then:
  assumes "transp R" and "keeps R m" and "\<And>a. keeps R (f a)"
  shows "keeps R (and_then m f)"
  unfolding keeps_def
proof
  fix w
  show "R w (snd (and_then m f w))"
  proof (cases "m w")
    case (Pair r w')
    have 1: "R w w'" using keepsD [OF assms(2), of w] Pair by simp
    show ?thesis
    proof (cases r)
      case (Inl e)
      with Pair 1 show ?thesis by (simp add: and_then_def)
    next
      case (Inr a)
      have "R w' (snd (f a w'))" using assms(3) by (rule keepsD)
      with 1 have "R w (snd (f a w'))" using assms(1) by (blast dest: transpD)
      with Pair Inr show ?thesis by (simp add: and_then_def)
    qed
  qed
qed

lemma keeps_result: "reflp R \<Longrightarrow> keeps R (result a)"
  by (simp add: keeps_def result_def reflpD)

lemma keeps_call: "reflp R \<Longrightarrow> keeps R (call r)"
  by (simp add: keeps_def call_def reflpD)

lemma keeps_if: "keeps R a \<Longrightarrow> keeps R b \<Longrightarrow> keeps R (if c then a else b)"
  by simp

lemma keeps_case_option:
  "keeps R a \<Longrightarrow> (\<And>x. keeps R (b x)) \<Longrightarrow> keeps R (case v of None \<Rightarrow> a | Some x \<Rightarrow> b x)"
  by (cases v) simp_all

text \<open>
  The pipeline is built from the primitive steps by sequencing and branching, so a
  reflexive and transitive relation that the primitive steps keep is kept by every run,
  whichever way it ends.
\<close>

lemma keeps_pipeline:
  assumes r: "reflp R" and t: "transp R"
    and p: "keeps R store_call" "\<And>fid s. keeps R (set_status fid s)"
      "\<And>ids. keeps R (delete_embeddings ids)" "\<And>fid. keeps R (delete_chunks fid)"
      "\<And>row. keeps R (add_chunk row)" "keeps R uuid4"
      "\<And>cid c. keeps R (embed_chunk env cid c)"
  shows "keeps R (process_file_body env fid path)"
    and "keeps R (process_file env fid path)"
    and "keeps R (re_process_file env fid path)"
proof -
  note seq = keeps_and_then [OF t]
  note basic = keeps_result [OF r] keeps_call [OF r] keeps_if keeps_case_option
  have q: "keeps R (query_file x)" for x
    unfolding query_file_def
    by (intro seq p) (simp add: keeps_def reflpD [OF r])
  have ids: "keeps R (query_chunk_ids x)" for x
    unfolding query_chunk_ids_def
    by (intro seq p) (simp add: keeps_def reflpD [OF r])
  have cnt: "keeps R (count_chunks x)" for x
    unfolding count_chunks_def
    by (intro seq p) (simp add: keeps_def reflpD [OF r])
  have cm: "keeps R commit" "keeps R flush"
    by (simp_all add: commit_def flush_def p)
  have del: "keeps R (delete_existing x)" for x
    unfolding delete_existing_def by (intro seq basic ids p)
  have one: "keeps R (process_chunk env x i c)" for x i c
    unfolding process_chunk_def by (intro seq basic p cm)
  have loop: "keeps R (process_chunks env x i cs)" for x i cs
  proof (induction cs arbitrary: i)
    case Nil
    show ?case by (simp add: basic)
  next
    case (Cons c cs)
    show ?case by (simp only: process_chunks.simps) (intro seq one Cons.IH)
  qed
  have handler: "keeps R (on_exception x)" for x
    unfolding on_exception_def by (intro seq basic q p cm)
  have body: "keeps R (process_file_body env x path)" for x
    unfolding process_file_body_def
    by (intro seq basic q p cm del cnt loop)
  show "keeps R (process_file_body env fid path)" by (rule body)
  have pf: "keeps R (process_file env x path)" for x
  proof -
    show ?thesis
      unfolding keeps_def
    proof
      fix w
      obtain res w1 where b: "process_file_body env x path w = (res, w1)"
        by (cases "process_file_body env x path w")
      have 1: "R w w1" using keepsD [OF body [of x], of w] b by simp
      have 2: "R w1 (snd (on_exception x w1))" using handler by (rule keepsD)
      from 1 2 have "R w (snd (on_exception x w1))" using t by (blast dest: transpD)
      with 1 b show "R w (snd (process_file env x path w))"
        by (cases res) (simp_all add: process_file_def)
    qed
  qed
  show "keeps R (process_file env fid path)" by (rule pf)
  have rbody: "keeps R (re_process_file_body env fid path)"
    unfolding re_process_file_body_def
    by (intro seq basic q p cm del pf)
  show "keeps R (re_process_file env fid path)"
    unfolding keeps_def
  proof
    fix w
    obtain res w1 where b: "re_process_file_body env fid path w = (res, w1)"
      by (cases "re_process_file_body env fid path w")
    have 1: "R w w1" using keepsD [OF rbody, of w] b by simp
    have 2: "R w1 (snd (on_exception fid w1))" using handler by (rule keepsD)
    from 1 2 have "R w (snd (on_exception fid w1))" using t by (blast dest: transpD)
    with 1 b show "R w (snd (re_process_file env fid path w))"
      by (cases res) (simp_all add: re_process_file_def)
  qed
qed

subsection \<open>Only rows of the one model are added\<close>

lemma only_ada_reflp: "reflp only_ada"
  by (rule reflpI) (simp add: only_ada_def list_all_iff)

lemma only_ada_transp: "transp only_ada"
  by (rule transpI) (auto simp: only_ada_def list_all_iff)

lemma only_ada_subset: "set (embeddings w') \<subseteq> set (embeddings w) \<Longrightarrow> only_ada w w'"
  by (auto simp: only_ada_def list_all_iff)

lemma only_ada_embed_chunk: "keeps only_ada (embed_chunk env cid c)"
  unfolding keeps_def
proof
  fix w :: "'a world"
  from embed_chunk_embeddings [of env cid c w]
  show "only_ada w (snd (embed_chunk env cid c w))"
    by (auto simp: only_ada_def list_all_iff)
qed

lemma only_ada_runs:
  "keeps only_ada (process_file env fid path)" "keeps only_ada (re_process_file env fid path)"
proof -
  have p: "keeps only_ada store_call" "\<And>fid s. keeps only_ada (set_status fid s)"
      "\<And>ids. keeps only_ada (delete_embeddings ids)" "\<And>fid. keeps only_ada (delete_chunks fid)"
      "\<And>row. keeps only_ada (add_chunk row)" "keeps only_ada uuid4"
    by (auto simp: keeps_def store_call_def set_status_def delete_embeddings_def
        delete_chunks_def add_chunk_def uuid4_def and_then_def
        intro!: only_ada_subset split: list.splits nat.splits option.splits)
  show "keeps only_ada (process_file env fid path)"
    by (rule keeps_pipeline(2) [OF only_ada_reflp only_ada_transp p only_ada_embed_chunk])
  show "keeps only_ada (re_process_file env fid path)"
    by (rule keeps_pipeline(3) [OF only_ada_reflp only_ada_transp p only_ada_embed_chunk])
qed

subsection \<open>The store's script and the file rows\<close>







lemma get_embedding_mock_vector:
  assumes mock: "use_mock_embeddings env" and st: "strip t \<noteq> []"
    and nz: "\<exists>x\<in>set (fst (draws env 1536 (rng_seed env (take 8000 t)))). x \<noteq> 0"
  shows "\<exists>v. fst (get_embedding env t s) = Inr (Some v) \<and>
             length v = 1536 \<and> sqrt (sum_list (map (\<lambda>x. x\<^sup>2) v)) = 1"
proof -
  from get_mock_embedding_total [OF nz, of s]
  obtain v where v: "fst (get_mock_embedding env (take 8000 t) 1536 s) = Inr v" ..
  then have "get_mock_embedding env (take 8000 t) 1536 s
             = (Inr v, snd (get_mock_embedding env (take 8000 t) 1536 s))"
    by (metis prod.collapse)
  then have "length v = 1536 \<and> sqrt (sum_list (map (\<lambda>x. x\<^sup>2) v)) = 1"
    by (rule get_mock_embedding_Inr) simp
  moreover have "fst (get_embedding env t s) = Inr (Some v)"
    using get_embedding_mock [OF mock st, of s s] v by simp
  ultimately show ?thesis by blast
qed

lemma demo_embeds:
  assumes "strip t \<noteq> []"
  shows "\<not> embedding_failed (fst (get_embedding demo_env t s))"
proof -
  have m: "use_mock_embeddings demo_env" by (simp add: demo_env_def)
  from get_embedding_mock_vector [OF m assms demo_draws_1536, of s]
  obtain v where "fst (get_embedding demo_env t s) = Inr (Some v)" and "length v = 1536"
    by blast
  then show ?thesis by (auto simp: embedding_failed_def)
qed

lemma demo_alpha_embeds: "\<not> embedding_failed (fst (get_embedding demo_env ''alpha'' s))"
  by (rule demo_embeds) (simp add: strip_empty_iff not_isspace_a)

text \<open>A chunk whose embedding succeeds gets a row that was not there before.\<close>

lemma process_file_new_embedding:
  assumes "files w fid = Some f" and "store_faults w = []"
    and "extract_text_from_file env path = Inr tx"
    and "\<not> startswith tx ''Error:''"
    and "chunk_text env tx 512 50 = Inr cs"
    and "\<forall>c\<in>set cs. \<exists>n. count_tokens env c = Inr n"
    and fresh: "uuids_fresh w"
    and k: "k < length cs"
    and ok: "\<not> embedding_failed (fst (get_embedding env (cs ! k) s))"
  shows "\<exists>e\<in>set (embeddings (snd (process_file env fid path w))). e \<notin> set (embeddings w)"
proof -
  from process_file_rows [OF assms(1-6), of s] obtain w' new es where
        run: "process_file env fid path w = (Inr (), w')"
    and fl: "files w' = (files w)(fid \<mapsto> f\<lparr>status := ''Embedded''\<rparr>)"
    and chs: "chunks w' = filter (\<lambda>c. file_id c \<noteq> fid) (chunks w) @ new"
    and ems: "embeddings w' =
             filter (\<lambda>e. embedding_chunk_id e \<notin> chunk_id ` set (chunks_of fid w)) (embeddings w)
             @ es"
    and num: "map chunk_number new = [1..<Suc (length cs)]"
    and txs: "map chunk_txt new = cs"
    and own: "\<forall>c\<in>set new. file_id c = fid \<and> next_uuid w \<le> chunk_id c"
    and some: "\<forall>k<length cs. (\<exists>e\<in>set es. embedding_chunk_id e = chunk_id (new ! k)) =
                           (\<not> embedding_failed (fst (get_embedding env (cs ! k) s)))"
    by blast
  have len: "length new = length cs" using txs by (metis length_map)
  with k have "new ! k \<in> set new" by simp
  with own have young: "next_uuid w \<le> chunk_id (new ! k)" by blast
  from some k ok obtain e where e: "e \<in> set es" "embedding_chunk_id e = chunk_id (new ! k)"
    by blast
  have "e \<notin> set (embeddings w)"
    using fresh young e(2) by (fastforce simp: uuids_fresh_def list_all_iff)
  with e(1) run ems show ?thesis by auto
qed

subsection \<open>The handler\<close>



subsection \<open>Reprocessing\<close>



section \<open>Claims about the pipeline\<close>

text \<open>
  Claim C1 (a document whose text extraction fails ends with the status \<open>Error\<close> and
  gets no chunk rows) does not hold of the code for a PDF that the parser rejects: the
  message that \<^verbatim>\<open>extract_text_from_file\<close> returns then starts with
  \<open>Error extracting\<close>, not with \<open>Error:\<close>, so \<^verbatim>\<open>process_file\<close> chunks and embeds
  the message and sets the status to \<open>Embedded\<close>. For a result that does start with
  \<open>Error:\<close>, as for an unsupported extension, \<open>process_file_extraction_error\<close> above
  shows the status \<open>Error\<close> and no chunk rows.
\<close>

theorem process_file_corrupt_pdf:
  "extract_text_from_file demo_env ''report.pdf''
     = Inr ''Error extracting text from PDF: EOF marker not found'' \<and>
   fst (process_file demo_env 1 ''report.pdf'' demo_world) = Inr () \<and>
   map_option status (files (snd (process_file demo_env 1 ''report.pdf'' demo_world)) 1)
     = Some ''Embedded'' \<and>
   map chunk_txt (chunks_of 1 (snd (process_file demo_env 1 ''report.pdf'' demo_world)))
     = [''Error extracting text from PDF: EOF marker not found'']"
proof -
  let ?tx = "''Error extracting text from PDF: EOF marker not found''"
  have ne: "\<not> startswith ?tx ''Error:''" by (simp add: startswith_def)
  have tok: "\<forall>c\<in>set [?tx]. \<exists>n. count_tokens demo_env c = Inr n"
    using demo_tokens by blast
  from process_file_ingests [OF demo_file demo_quiet demo_extract_pdf ne demo_chunks_pdf tok]
    demo_extract_pdf
  show ?thesis by simp
qed



text \<open>
  Claim C3. Let \<^verbatim>\<open>process_file\<close> ingest a document: the file row exists, no store
  call fails, extraction yields a text that does not start with \<open>Error:\<close>, the chunker
  returns the chunks \<open>cs\<close> and the tokenizer accepts each of them. If
  \<^verbatim>\<open>get_embedding\<close> fails for the chunk at index \<open>k\<close> (it raises, or returns
  \<^verbatim>\<open>None\<close> or an empty vector), every chunk is still persisted under its number,
  the status still becomes \<open>Embedded\<close>, and no embedding row references the chunk at
  index \<open>k\<close>; the run goes on, and a chunk is referenced by an embedding row exactly
  when \<^verbatim>\<open>get_embedding\<close> did not fail for it. The identifiers in use before the run
  are taken to be older than the ones \<^verbatim>\<open>uuid4\<close> hands out. The witness is the
  scenario of the specification: the embedding fails for chunk 2 of 3.
\<close>

theorem process_file_embedding_failure:
  assumes "files w fid = Some f" and "store_faults w = []"
    and "extract_text_from_file env path = Inr tx"
    and "\<not> startswith tx ''Error:''"
    and "chunk_text env tx 512 50 = Inr cs"
    and "\<forall>c\<in>set cs. \<exists>n. count_tokens env c = Inr n"
    and fresh: "uuids_fresh w"
    and k: "k < length cs"
    and failed: "embedding_failed (fst (get_embedding env (cs ! k) s))"
  shows "fst (process_file env fid path w) = Inr () \<and>
         map_option status (files (snd (process_file env fid path w)) fid) = Some ''Embedded'' \<and>
         map chunk_number (chunks_of fid (snd (process_file env fid path w)))
           = [1..<Suc (length cs)] \<and>
         map chunk_txt (chunks_of fid (snd (process_file env fid path w))) = cs \<and>
         embeddings_of (chunk_id (chunks_of fid (snd (process_file env fid path w)) ! k))
           (snd (process_file env fid path w)) = [] \<and>
         (\<forall>j<length cs.
            (embeddings_of (chunk_id (chunks_of fid (snd (process_file env fid path w)) ! j))
               (snd (process_file env fid path w)) \<noteq> [])
            = (\<not> embedding_failed (fst (get_embedding env (cs ! j) s))))"
proof -
  from process_file_rows [OF assms(1-6), of s] obtain w' new es where
        run: "process_file env fid path w = (Inr (), w')"
    and fl: "files w' = (files w)(fid \<mapsto> f\<lparr>status := ''Embedded''\<rparr>)"
    and chs: "chunks w' = filter (\<lambda>c. file_id c \<noteq> fid) (chunks w) @ new"
    and ems: "embeddings w' =
             filter (\<lambda>e. embedding_chunk_id e \<notin> chunk_id ` set (chunks_of fid w)) (embeddings w)
             @ es"
    and num: "map chunk_number new = [1..<Suc (length cs)]"
    and txs: "map chunk_txt new = cs"
    and own: "\<forall>c\<in>set new. file_id c = fid \<and> next_uuid w \<le> chunk_id c"
    and none: "\<forall>k<length cs. (\<exists>e\<in>set es. embedding_chunk_id e = chunk_id (new ! k)) =
                           (\<not> embedding_failed (fst (get_embedding env (cs ! k) s)))"
    by blast
  have new: "chunks_of fid w' = new"
    unfolding chunks_of_def chs using own by (intro chunks_of_append_new) blast
  have len: "length new = length cs" using txs by (metis length_map)
  have each: "(embeddings_of (chunk_id (new ! j)) w' \<noteq> [])
              = (\<not> embedding_failed (fst (get_embedding env (cs ! j) s)))"
    if j: "j < length cs" for j
  proof -
    from j len have "new ! j \<in> set new" by simp
    with own have young: "next_uuid w \<le> chunk_id (new ! j)" by blast
    have old: "\<forall>e\<in>set (embeddings w). embedding_chunk_id e \<noteq> chunk_id (new ! j)"
      using fresh young by (fastforce simp: uuids_fresh_def list_all_iff)
    have "(embeddings_of (chunk_id (new ! j)) w' \<noteq> [])
          = (\<exists>e\<in>set (embeddings w'). embedding_chunk_id e = chunk_id (new ! j))"
      by (auto simp: embeddings_of_def filter_empty_conv)
    also have "\<dots> = (\<exists>e\<in>set es. embedding_chunk_id e = chunk_id (new ! j))"
      using old by (auto simp: ems)
    also have "\<dots> = (\<not> embedding_failed (fst (get_embedding env (cs ! j) s)))"
      using none j by blast
    finally show ?thesis .
  qed
  from each [OF k] failed have "embeddings_of (chunk_id (new ! k)) w' = []" by simp
  with run fl num txs new each show ?thesis by simp
qed

theorem process_file_embedding_failure_witness:
  "fst (process_file demo_env 1 ''notes.txt'' demo_world) = Inr () \<and>
   map_option status (files (snd (process_file demo_env 1 ''notes.txt'' demo_world)) 1)
     = Some ''Embedded'' \<and>
   map chunk_number (chunks_of 1 (snd (process_file demo_env 1 ''notes.txt'' demo_world)))
     = [1, 2, 3] \<and>
   map chunk_txt (chunks_of 1 (snd (process_file demo_env 1 ''notes.txt'' demo_world)))
     = [''alpha'', '' '', ''gamma''] \<and>
   embeddings_of (chunk_id (chunks_of 1 (snd (process_file demo_env 1 ''notes.txt'' demo_world)) ! 0))
     (snd (process_file demo_env 1 ''notes.txt'' demo_world)) \<noteq> [] \<and>
   embeddings_of (chunk_id (chunks_of 1 (snd (process_file demo_env 1 ''notes.txt'' demo_world)) ! 1))
     (snd (process_file demo_env 1 ''notes.txt'' demo_world)) = [] \<and>
   embeddings_of (chunk_id (chunks_of 1 (snd (process_file demo_env 1 ''notes.txt'' demo_world)) ! 2))
     (snd (process_file demo_env 1 ''notes.txt'' demo_world)) \<noteq> []"
proof -
  let ?cs = "[''alpha'', '' '', ''gamma'']"
  let ?W = "snd (process_file demo_env 1 ''notes.txt'' demo_world)"
  have ne: "\<not> startswith ''alpha beta gamma'' ''Error:''" by (simp add: startswith_def)
  have tok: "\<forall>c\<in>set ?cs. \<exists>n. count_tokens demo_env c = Inr n"
    using demo_tokens by blast
  have k: "1 < length ?cs" by simp
  have bad: "embedding_failed (fst (get_embedding demo_env (?cs ! 1) 0))"
    using demo_blank_fails [of 0] by simp
  have up: "[1..<Suc (length ?cs)] = [1, 2, 3::nat]"
    by (simp add: upt_rec)
  note run = process_file_embedding_failure
    [OF demo_file demo_quiet demo_extract_txt ne demo_chunks tok demo_fresh k bad]
  from run have each: "\<forall>j<length ?cs.
      (embeddings_of (chunk_id (chunks_of 1 ?W ! j)) ?W \<noteq> [])
      = (\<not> embedding_failed (fst (get_embedding demo_env (?cs ! j) 0)))"
    by blast
  have g0: "embeddings_of (chunk_id (chunks_of 1 ?W ! 0)) ?W \<noteq> []"
    using each demo_embeds [of "''alpha''" 0] by (simp add: strip_empty_iff not_isspace_a)
  have g2: "embeddings_of (chunk_id (chunks_of 1 ?W ! 2)) ?W \<noteq> []"
    using each demo_embeds [of "''gamma''" 0] by (simp add: strip_empty_iff not_isspace_a)
  from run up g0 g2 show ?thesis by simp
qed

text \<open>
  Claim C4. When \<^verbatim>\<open>process_file\<close> ingests a document (the file row exists, no store
  call fails, extraction yields a text that does not start with \<open>Error:\<close>, the chunker
  returns the chunks \<open>cs\<close> and the tokenizer accepts each of them), it returns with the
  status \<open>Embedded\<close>, and the chunk rows of the document are, in the chunker's order,
  numbered 1 to \<open>length cs\<close> without a gap and hold the texts \<open>cs\<close>.
\<close>

theorem process_file_chunk_numbers:
  assumes "files w fid = Some f" and "store_faults w = []"
    and "extract_text_from_file env path = Inr tx"
    and "\<not> startswith tx ''Error:''"
    and "chunk_text env tx 512 50 = Inr cs"
    and "\<forall>c\<in>set cs. \<exists>n. count_tokens env c = Inr n"
  shows "fst (process_file env fid path w) = Inr () \<and>
         map_option status (files (snd (process_file env fid path w)) fid) = Some ''Embedded'' \<and>
         map chunk_number (chunks_of fid (snd (process_file env fid path w)))
           = [1..<Suc (length cs)] \<and>
         map chunk_txt (chunks_of fid (snd (process_file env fid path w))) = cs"
proof -
  note run = process_file_ingests [OF assms]
  from run show ?thesis by simp
qed

theorem process_file_chunk_numbers_witness:
  "fst (process_file demo_env 1 ''notes.txt'' demo_world) = Inr () \<and>
   map_option status (files (snd (process_file demo_env 1 ''notes.txt'' demo_world)) 1)
     = Some ''Embedded'' \<and>
   map chunk_number (chunks_of 1 (snd (process_file demo_env 1 ''notes.txt'' demo_world)))
     = [1, 2, 3] \<and>
   map chunk_txt (chunks_of 1 (snd (process_file demo_env 1 ''notes.txt'' demo_world)))
     = [''alpha'', '' '', ''gamma'']"
proof -
  have ne: "\<not> startswith ''alpha beta gamma'' ''Error:''" by (simp add: startswith_def)
  have tok: "\<forall>c\<in>set [''alpha'', '' '', ''gamma'']. \<exists>n. count_tokens demo_env c = Inr n"
    using demo_tokens by blast
  have "[1..<Suc (length [''alpha'', '' '', ''gamma''])] = [1, 2, 3::nat]"
    by (simp add: upt_rec)
  with process_file_chunk_numbers [OF demo_file demo_quiet demo_extract_txt ne demo_chunks tok]
  show ?thesis by simp
qed




text \<open>
  Claim C9. Whatever a run of \<^verbatim>\<open>process_file\<close> or \<^verbatim>\<open>re_process_file\<close> does and
  however it ends, every embedding row of the store afterwards was there before the run
  or records the model \<open>text-embedding-ada-002\<close>, under the deterministic strategy as
  under the live one. The witness is a run under the deterministic strategy that adds
  a row.
\<close>

theorem embedding_model_recorded:
  "(\<forall>e\<in>set (embeddings (snd (process_file env fid path w))).
      e \<in> set (embeddings w) \<or> embedding_model e = ''text-embedding-ada-002'') \<and>
   (\<forall>e\<in>set (embeddings (snd (re_process_file env fid path w))).
      e \<in> set (embeddings w) \<or> embedding_model e = ''text-embedding-ada-002'')"
proof -
  have "only_ada w (snd (process_file env fid path w))"
    using only_ada_runs(1) by (rule keepsD)
  moreover have "only_ada w (snd (re_process_file env fid path w))"
    using only_ada_runs(2) by (rule keepsD)
  ultimately show ?thesis by (simp add: only_ada_def list_all_iff)
qed

theorem embedding_model_recorded_witness:
  "use_mock_embeddings demo_env \<and>
   (\<exists>e\<in>set (embeddings (snd (process_file demo_env 1 ''notes.txt'' demo_world))).
      e \<notin> set (embeddings demo_world) \<and> embedding_model e = ''text-embedding-ada-002'')"
proof -
  have ne: "\<not> startswith ''alpha beta gamma'' ''Error:''" by (simp add: startswith_def)
  have tok: "\<forall>c\<in>set [''alpha'', '' '', ''gamma'']. \<exists>n. count_tokens demo_env c = Inr n"
    using demo_tokens by blast
  have k: "0 < length [''alpha'', '' '', ''gamma'']" by simp
  have ok: "\<not> embedding_failed (fst (get_embedding demo_env ([''alpha'', '' '', ''gamma''] ! 0) 0))"
    using demo_alpha_embeds [of 0] by simp
  from process_file_new_embedding
    [OF demo_file demo_quiet demo_extract_txt ne demo_chunks tok demo_fresh k ok]
  obtain e where e: "e \<in> set (embeddings (snd (process_file demo_env 1 ''notes.txt'' demo_world)))"
    "e \<notin> set (embeddings demo_world)" by blast
  with embedding_model_recorded [of demo_env 1 "''notes.txt''" demo_world]
  have "embedding_model e = ''text-embedding-ada-002''" by blast
  moreover have "use_mock_embeddings demo_env" by (simp add: demo_env_def)
  ultimately show ?thesis using e by blast
qed

text \<open>
  Claim C10. When the look-up of the file row returns no row, \<^verbatim>\<open>process_file\<close>
  returns at once, without raising, and the three tables are as they were.
\<close>

theorem process_file_missing_row:
  assumes "query_file fid w = (Inr None, w')"
  shows "process_file env fid path w = (Inr (), w') \<and>
         files w' = files w \<and> chunks w' = chunks w \<and> embeddings w' = embeddings w"
proof -
  have "process_file_body env fid path w = (Inr (), w')"
    using assms by (simp add: process_file_body_def and_then_def result_def)
  then have "process_file env fid path w = (Inr (), w')"
    by (simp add: process_file_def)
  moreover have "files w' = files w \<and> chunks w' = chunks w \<and> embeddings w' = embeddings w"
    using assms
    by (auto simp: query_file_def and_then_def store_call_def split: list.splits nat.splits)
  ultimately show ?thesis by simp
qed

theorem process_file_missing_row_witness:
  "query_file 2 demo_world = (Inr None, demo_world) \<and>
   process_file demo_env 2 ''notes.txt'' demo_world = (Inr (), demo_world)"
proof -
  have q: "query_file 2 demo_world = (Inr None, demo_world)"
    by (simp add: query_file_quiet [OF demo_quiet]) (simp add: demo_world_def)
  from process_file_missing_row [OF q, of demo_env "''notes.txt''"] q show ?thesis by simp
qed

end
